theory Spec2Isabelle
  imports Complex_Main
begin

section \<open>Data model (backend/shared/schemas.py)\<close>

text \<open>
  Python floats are idealised as reals and Python's unbounded integers are \<open>int\<close>.
  A dictionary whose set of keys is fixed by the code that builds it is a record; a key
  that the code reads with \<open>.get\<close> and that may be absent or \<open>None\<close> is an option.
\<close>

datatype py_error = KeyError string

text \<open>\<open>TTSJob.model_dump()\<close>: the dictionary that travels through the queue.\<close>

record tts_job =
  job_id :: string
  job_text :: string
  gender :: "string option"
  area :: "string option"
  emotion :: "string option"
  speed :: real
  quality :: string
  reference_audio :: "string option"
  reference_text :: "string option"
  trim_audio_to :: "real option"
  created_at :: real
  timeout :: int

text \<open>The result dictionary built by the worker and read back by the gateway.\<close>

record tts_result =
  status :: "string option"
  audio :: "string option"
  generation_time :: "real option"
  audio_duration :: "real option"
  error :: "string option"
  error_code :: "string option"
  completed_at :: real

text \<open>The value of a worker key: \<open>{"timestamp": ..., "quality": ...}\<close>.\<close>

record worker_data =
  wd_timestamp :: real
  wd_quality :: string

text \<open>The value of an API key record (backend/shared/auth.py, \<open>create_key\<close>).\<close>

record key_data =
  key_id :: string
  full_key_hash :: string
  name :: string
  key_created_at :: real
  requests_count :: int
  audio_seconds :: real

section \<open>The broker (backend/shared/redis_client.py)\<close>

text \<open>
  Redis has one keyspace. The key prefixes of \<open>RedisClient\<close> partition it, so every
  prefix is a map of its own, addressed by the full key. A list key that does not exist
  is the empty list; index 0 of a list is its head (where \<open>LPUSH\<close> inserts) and the
  last element is its tail (where \<open>BRPOP\<close> removes). \<open>json.loads (json.dumps d) = d\<close>
  for the dictionaries stored here, so the broker holds the dictionary itself. Expiry of
  keys is not modelled: a state is the store at one instant. The field
  \<open>status_writes\<close> is a history variable: every \<open>SET\<close> of a status key appends
  the key and the value written.
\<close>

record broker =
  queues :: "string \<Rightarrow> tts_job list"
  statuses :: "string \<rightharpoonup> string"
  results :: "string \<rightharpoonup> tts_result"
  workers :: "(string \<times> worker_data) list"
  apikeys :: "string \<rightharpoonup> key_data"
  metrics :: "string \<Rightarrow> int"
  status_writes :: "(string \<times> string) list"

definition empty_broker :: broker where
  "empty_broker = \<lparr> queues = (\<lambda>_. []), statuses = Map.empty, results = Map.empty,
     workers = [], apikeys = Map.empty, metrics = (\<lambda>_. 0), status_writes = [] \<rparr>"

definition JOBS_QUEUE_HIGH :: string where "JOBS_QUEUE_HIGH = ''tts:jobs:high''"
definition JOBS_QUEUE_FAST :: string where "JOBS_QUEUE_FAST = ''tts:jobs:fast''"
definition RESULT_PREFIX :: string where "RESULT_PREFIX = ''tts:result:''"
definition STATUS_PREFIX :: string where "STATUS_PREFIX = ''tts:status:''"
definition WORKER_PREFIX :: string where "WORKER_PREFIX = ''tts:worker:''"
definition QUALITY_HIGH :: string where "QUALITY_HIGH = ''high''"
definition QUALITY_FAST :: string where "QUALITY_FAST = ''fast''"

subsection \<open>Redis primitives\<close>

definition lpush :: "broker \<Rightarrow> string \<Rightarrow> tts_job \<Rightarrow> broker" where
  "lpush b k v = b\<lparr>queues := (queues b)(k := v # queues b k)\<rparr>"

text \<open>\<open>BRPOP\<close>: the tail element, removed; \<open>None\<close> when the list stays empty.\<close>

definition brpop :: "broker \<Rightarrow> string \<Rightarrow> tts_job option \<times> broker" where
  "brpop b k = (case queues b k of
      [] \<Rightarrow> (None, b)
    | x # xs \<Rightarrow> (Some (last (x # xs)), b\<lparr>queues := (queues b)(k := butlast (x # xs))\<rparr>))"

definition set_status_key :: "broker \<Rightarrow> string \<Rightarrow> string \<Rightarrow> broker" where
  "set_status_key b k v =
     b\<lparr>statuses := (statuses b)(k \<mapsto> v), status_writes := status_writes b @ [(k, v)]\<rparr>"

subsection \<open>Queue operations\<close>

definition get_queue_key :: "string \<Rightarrow> string" where
  "get_queue_key q = (if q = QUALITY_FAST then JOBS_QUEUE_FAST else JOBS_QUEUE_HIGH)"

definition enqueue_job :: "broker \<Rightarrow> tts_job \<Rightarrow> string \<Rightarrow> broker" where
  "enqueue_job b job_data q =
     (let queue_key = get_queue_key q;
          b1 = lpush b queue_key job_data
      in set_status_key b1 (STATUS_PREFIX @ job_id job_data) ''pending'')"

text \<open>The timeout only bounds how long the call blocks; it does not change the result.\<close>

definition dequeue_job :: "broker \<Rightarrow> string \<Rightarrow> int \<Rightarrow> tts_job option \<times> broker" where
  "dequeue_job b q tmo = brpop b (get_queue_key q)"

definition set_job_status :: "broker \<Rightarrow> string \<Rightarrow> string \<Rightarrow> broker" where
  "set_job_status b jid st = set_status_key b (STATUS_PREFIX @ jid) st"

definition get_job_status :: "broker \<Rightarrow> string \<Rightarrow> string option" where
  "get_job_status b jid = statuses b (STATUS_PREFIX @ jid)"

definition store_result :: "broker \<Rightarrow> string \<Rightarrow> tts_result \<Rightarrow> broker" where
  "store_result b jid result_data =
     (let b1 = b\<lparr>results := (results b)(RESULT_PREFIX @ jid \<mapsto> result_data)\<rparr>
      in set_status_key b1 (STATUS_PREFIX @ jid)
           (case status result_data of None \<Rightarrow> ''completed'' | Some s \<Rightarrow> s))"

definition get_result :: "broker \<Rightarrow> string \<Rightarrow> tts_result option" where
  "get_result b jid = results b (RESULT_PREFIX @ jid)"

definition get_queue_size :: "broker \<Rightarrow> string option \<Rightarrow> int" where
  "get_queue_size b q = (case q of
      Some qq \<Rightarrow> (if qq \<noteq> [] then int (length (queues b (get_queue_key qq)))
                  else int (length (queues b JOBS_QUEUE_HIGH)) + int (length (queues b JOBS_QUEUE_FAST)))
    | None \<Rightarrow> int (length (queues b JOBS_QUEUE_HIGH)) + int (length (queues b JOBS_QUEUE_FAST)))"

text \<open>The loop \<open>for i, job_json in enumerate(reversed(jobs))\<close> of \<open>get_queue_position\<close>.\<close>

fun scan_position :: "string \<Rightarrow> tts_job list \<Rightarrow> nat \<Rightarrow> int" where
  "scan_position jid [] i = - 1"
| "scan_position jid (job # jobs) i =
     (if job_id job = jid then int i else scan_position jid jobs (Suc i))"

definition get_queue_position :: "broker \<Rightarrow> string \<Rightarrow> string \<Rightarrow> int" where
  "get_queue_position b jid q =
     (let queue_key = get_queue_key q;
          jobs = queues b queue_key
      in scan_position jid (rev jobs) 0)"

fun alist_update :: "string \<Rightarrow> 'v \<Rightarrow> (string \<times> 'v) list \<Rightarrow> (string \<times> 'v) list" where
  "alist_update k v [] = [(k, v)]"
| "alist_update k v (p # ps) = (if fst p = k then (k, v) # ps else p # alist_update k v ps)"

definition register_worker :: "broker \<Rightarrow> string \<Rightarrow> string \<Rightarrow> real \<Rightarrow> broker" where
  "register_worker b wid q now =
     b\<lparr>workers := alist_update (WORKER_PREFIX @ wid) \<lparr>wd_timestamp = now, wd_quality = q\<rparr> (workers b)\<rparr>"

definition unregister_worker :: "broker \<Rightarrow> string \<Rightarrow> broker" where
  "unregister_worker b wid = b\<lparr>workers := filter (\<lambda>p. fst p \<noteq> WORKER_PREFIX @ wid) (workers b)\<rparr>"

text \<open>\<open>key.replace(WORKER_PREFIX, "")\<close> on a key that starts with the prefix and whose
  remainder does not contain it drops the prefix.\<close>

definition get_active_workers :: "broker \<Rightarrow> string list" where
  "get_active_workers b = map (\<lambda>p. drop (length WORKER_PREFIX) (fst p)) (workers b)"

definition increment_metric :: "broker \<Rightarrow> string \<Rightarrow> int \<Rightarrow> broker" where
  "increment_metric b metric amount = b\<lparr>metrics := (metrics b)(metric := metrics b metric + amount)\<rparr>"

text \<open>Repeated dequeues on one quality, in the order the jobs are handed out.\<close>

fun dequeue_many :: "broker \<Rightarrow> string \<Rightarrow> nat \<Rightarrow> tts_job list \<times> broker" where
  "dequeue_many b q 0 = ([], b)"
| "dequeue_many b q (Suc n) =
     (case dequeue_job b q 5 of
        (None, b1) \<Rightarrow> ([], b1)
      | (Some job, b1) \<Rightarrow> (case dequeue_many b1 q n of (js, b2) \<Rightarrow> (job # js, b2)))"

text \<open>A run of enqueues on one quality, oldest first.\<close>

fun enqueue_all :: "broker \<Rightarrow> tts_job list \<Rightarrow> string \<Rightarrow> broker" where
  "enqueue_all b [] q = b"
| "enqueue_all b (j # js) q = enqueue_all (enqueue_job b j q) js q"

section \<open>The worker (backend/worker/main.py)\<close>

record tts_worker =
  worker_id :: string
  w_quality :: string
  nfe_steps :: int
  heartbeat_interval :: int
  running :: bool
  last_heartbeat :: real

definition QUALITY_PRESETS :: "(string \<times> int) list" where
  "QUALITY_PRESETS = [(''high'', 32), (''fast'', 16)]"

text \<open>
  \<open>TTSWorker.__init__\<close>. \<open>fresh_id\<close> is the generated \<open>worker-<uuid prefix>\<close>;
  \<open>x or y\<close> takes \<open>y\<close> when \<open>x\<close> is \<open>None\<close>, empty or zero, and evaluates
  \<open>y\<close> only then.
\<close>

definition TTSWorker_init ::
  "string option \<Rightarrow> string \<Rightarrow> string \<Rightarrow> int option \<Rightarrow> int \<Rightarrow> py_error + tts_worker" where
  "TTSWorker_init wid fresh_id q nfe hb =
     (let the_id = (case wid of None \<Rightarrow> fresh_id | Some w \<Rightarrow> if w = [] then fresh_id else w);
          the_quality = (if map_of QUALITY_PRESETS q \<noteq> None then q else ''high'');
          override = (case nfe of None \<Rightarrow> None | Some n \<Rightarrow> if n = 0 then None else Some n);
          make = (\<lambda>n. \<lparr>worker_id = the_id, w_quality = the_quality, nfe_steps = n,
                        heartbeat_interval = hb, running = False, last_heartbeat = 0\<rparr>)
      in case override of
           Some n \<Rightarrow> Inr (make n)
         | None \<Rightarrow> (case map_of QUALITY_PRESETS the_quality of
                       None \<Rightarrow> Inl (KeyError the_quality)
                     | Some n \<Rightarrow> Inr (make n)))"

text \<open>
  The collaborators of \<open>_process_job\<close>. An exception is the pair of \<open>str(e)\<close> and
  \<open>type(e).__name__\<close>. \<open>preprocess_reference\<close> is the block that decodes the
  base64 reference, loads it, trims the silence and exports a temporary WAV file, giving
  its path; \<open>synthesize_to_bytes\<close> is the engine call on text, gender, area, emotion,
  reference path and reference text, giving the audio bytes and their duration.
  \<open>elapsed\<close> is \<open>round(time.time() - start_time, 3)\<close> and \<open>finish_time\<close> the
  later \<open>time.time()\<close>.
\<close>

type_synonym exn = "string \<times> string"

record engine =
  preprocess_reference :: "string \<Rightarrow> exn + string"
  synthesize_to_bytes :: "string \<Rightarrow> string option \<Rightarrow> string option \<Rightarrow> string option
                            \<Rightarrow> string option \<Rightarrow> string option \<Rightarrow> exn + (string \<times> real)"
  b64encode :: "string \<Rightarrow> string"
  round3 :: "real \<Rightarrow> real"
  elapsed :: real
  finish_time :: real

definition truthy :: "string option \<Rightarrow> bool" where
  "truthy x = (case x of None \<Rightarrow> False | Some s \<Rightarrow> s \<noteq> [])"

definition error_result :: "engine \<Rightarrow> exn \<Rightarrow> tts_result" where
  "error_result eng e =
     \<lparr>status = Some ''error'', audio = None, generation_time = None, audio_duration = None,
      error = Some (fst e), error_code = Some (snd e), completed_at = finish_time eng\<rparr>"

definition completed_result :: "engine \<Rightarrow> string \<Rightarrow> real \<Rightarrow> tts_result" where
  "completed_result eng audio_bytes duration =
     \<lparr>status = Some ''completed'', audio = Some (b64encode eng audio_bytes),
      generation_time = Some (elapsed eng),
      audio_duration = (if duration \<noteq> 0 then Some (round3 eng duration) else None),
      error = None, error_code = None, completed_at = finish_time eng\<rparr>"

text \<open>
  \<open>_process_job\<close>: the \<open>try\<close> block, with the \<open>except\<close> branch as the
  \<open>Inl\<close> cases. The status write sits after the reference block, inside the
  \<open>try\<close>.
\<close>

definition process_job :: "engine \<Rightarrow> broker \<Rightarrow> tts_job \<Rightarrow> tts_result \<times> broker" where
  "process_job eng b job =
     (let reference_audio_b64 = reference_audio job;
          ref_text = reference_text job;
          ref_audio_path =
            (if truthy reference_audio_b64 \<and> truthy ref_text
             then (case preprocess_reference eng (case reference_audio_b64 of Some a \<Rightarrow> a | None \<Rightarrow> [])
                   of Inl e \<Rightarrow> Inl e | Inr path \<Rightarrow> Inr (Some path))
             else Inr None)
      in case ref_audio_path of
           Inl e \<Rightarrow> (error_result eng e, increment_metric b ''jobs_failed'' 1)
         | Inr path \<Rightarrow>
            (let b1 = set_job_status b (job_id job) ''processing''
             in case synthesize_to_bytes eng (job_text job) (gender job) (area job) (emotion job)
                       path ref_text of
                  Inl e \<Rightarrow> (error_result eng e, increment_metric b1 ''jobs_failed'' 1)
                | Inr (audio_bytes, duration) \<Rightarrow>
                    (completed_result eng audio_bytes duration,
                     increment_metric b1 ''jobs_completed'' 1)))"

definition update_heartbeat :: "real \<Rightarrow> tts_worker \<Rightarrow> broker \<Rightarrow> tts_worker \<times> broker" where
  "update_heartbeat now w b =
     (if now - last_heartbeat w \<ge> real_of_int (heartbeat_interval w)
      then (w\<lparr>last_heartbeat := now\<rparr>, register_worker b (worker_id w) (w_quality w) now)
      else (w, b))"

text \<open>One turn of the \<open>while self.running\<close> loop of \<open>run\<close>.\<close>

definition worker_iteration :: "engine \<Rightarrow> real \<Rightarrow> tts_worker \<Rightarrow> broker \<Rightarrow> tts_worker \<times> broker" where
  "worker_iteration eng now w b =
     (case update_heartbeat now w b of (w1, b1) \<Rightarrow>
        (case dequeue_job b1 (w_quality w1) 5 of
           (None, b2) \<Rightarrow> (w1, b2)
         | (Some job, b2) \<Rightarrow>
             (case process_job eng b2 job of (result, b3) \<Rightarrow>
                (w1, store_result b3 (job_id job) result))))"

text \<open>The values written to the status key of one job, in the order of the writes.\<close>

definition writes_of :: "broker \<Rightarrow> string \<Rightarrow> string list" where
  "writes_of b jid = map snd (filter (\<lambda>p. fst p = STATUS_PREFIX @ jid) (status_writes b))"

section \<open>API keys (backend/shared/auth.py)\<close>

definition KEY_PREFIX :: string where "KEY_PREFIX = ''vvtts_''"
definition KEY_LENGTH :: nat where "KEY_LENGTH = 32"
definition APIKEY_PREFIX :: string where "APIKEY_PREFIX = ''apikey:''"

record api_key_info =
  info_key_id :: string
  info_name :: string
  info_created_at :: real
  info_requests_count :: int
  info_audio_seconds :: real

text \<open>Python's \<open>s[-8:]\<close>: the last eight characters, or all of a shorter string.\<close>

definition last8 :: "string \<Rightarrow> string" where
  "last8 s = drop (length s - 8) s"

text \<open>\<open>token\<close> is the value of \<open>secrets.token_hex(KEY_LENGTH // 2)\<close>.\<close>

definition generate_api_key :: "string \<Rightarrow> string \<times> string" where
  "generate_api_key token = (KEY_PREFIX @ token, last8 token)"

definition get_key_id_from_full_key :: "string \<Rightarrow> string option" where
  "get_key_id_from_full_key full_key =
     (if full_key = [] \<or> take (length KEY_PREFIX) full_key \<noteq> KEY_PREFIX then None
      else (let token = drop (length KEY_PREFIX) full_key
            in if length token \<noteq> KEY_LENGTH then None else Some (last8 token)))"

text \<open>\<open>hash_key\<close> stands for \<open>_hash_key\<close>, the SHA-256 hex digest of the key.\<close>

definition create_key ::
  "(string \<Rightarrow> string) \<Rightarrow> broker \<Rightarrow> string \<Rightarrow> string \<Rightarrow> real \<Rightarrow> (string \<times> api_key_info) \<times> broker" where
  "create_key hash_key b nm token now =
     (case generate_api_key token of (full_key, kid) \<Rightarrow>
        (let kd = \<lparr>key_id = kid, full_key_hash = hash_key full_key, name = nm,
                   key_created_at = now, requests_count = 0, audio_seconds = 0\<rparr>
         in ((full_key, \<lparr>info_key_id = kid, info_name = nm, info_created_at = key_created_at kd,
                          info_requests_count = 0, info_audio_seconds = 0\<rparr>),
             b\<lparr>apikeys := (apikeys b)(APIKEY_PREFIX @ kid \<mapsto> kd)\<rparr>)))"

definition validate_key :: "(string \<Rightarrow> string) \<Rightarrow> broker \<Rightarrow> string \<Rightarrow> api_key_info option" where
  "validate_key hash_key b full_key =
     (case get_key_id_from_full_key full_key of
        None \<Rightarrow> None
      | Some kid \<Rightarrow>
          (if kid = [] then None
           else (case apikeys b (APIKEY_PREFIX @ kid) of
                   None \<Rightarrow> None
                 | Some kd \<Rightarrow>
                     (if full_key_hash kd \<noteq> hash_key full_key then None
                      else Some \<lparr>info_key_id = key_id kd, info_name = name kd,
                                 info_created_at = key_created_at kd,
                                 info_requests_count = requests_count kd,
                                 info_audio_seconds = audio_seconds kd\<rparr>))))"

definition delete_key :: "broker \<Rightarrow> string \<Rightarrow> bool \<times> broker" where
  "delete_key b kid =
     (apikeys b (APIKEY_PREFIX @ kid) \<noteq> None, b\<lparr>apikeys := (apikeys b)(APIKEY_PREFIX @ kid := None)\<rparr>)"

definition increment_usage :: "broker \<Rightarrow> string \<Rightarrow> real \<Rightarrow> broker" where
  "increment_usage b kid secs =
     (let redis_key = APIKEY_PREFIX @ kid
      in case apikeys b redis_key of
           None \<Rightarrow> b
         | Some kd \<Rightarrow>
             b\<lparr>apikeys := (apikeys b)(redis_key \<mapsto>
                  kd\<lparr>requests_count := requests_count kd + 1,
                     audio_seconds := audio_seconds kd + secs\<rparr>)\<rparr>)"

text \<open>The part of a request that the credential gate reads.\<close>

record request =
  client_host :: "string option"
  x_forwarded_for :: "string option"
  x_api_key :: "string option"
  api_key :: "string option"

text \<open>\<open>str.isspace\<close> on the characters a header can hold (code points below 256),
  and \<open>str.strip()\<close>.\<close>

definition py_isspace :: "char \<Rightarrow> bool" where
  "py_isspace c = (of_char c \<in> {9, 10, 11, 12, 13, 28, 29, 30, 31, 32, 133, 160 :: nat})"

definition strip :: "string \<Rightarrow> string" where
  "strip s = rev (dropWhile py_isspace (rev (dropWhile py_isspace s)))"

definition localhost_ips :: "string set" where
  "localhost_ips = {''127.0.0.1'', ''::1'', ''localhost''}"

definition is_localhost_request :: "request \<Rightarrow> bool" where
  "is_localhost_request req =
     (if (case client_host req of None \<Rightarrow> False | Some hst \<Rightarrow> hst \<in> localhost_ips) then True
      else (let forwarded_for = (case x_forwarded_for req of None \<Rightarrow> [] | Some v \<Rightarrow> v)
            in if forwarded_for \<noteq> []
               then (let original_ip = strip (takeWhile (\<lambda>c. c \<noteq> CHR '','') forwarded_for)
                     in if original_ip \<in> localhost_ips then True else False)
               else False))"

section \<open>The gateway (backend/gateway/main.py)\<close>

datatype http_exception = HTTPException int string

definition AVG_GENERATION_TIME :: real where "AVG_GENERATION_TIME = 3"

definition select_key :: "request \<Rightarrow> string option" where
  "select_key req = (case x_api_key req of
      None \<Rightarrow> api_key req
    | Some k \<Rightarrow> if k = [] then api_key req else Some k)"

definition verify_api_key ::
  "(string \<Rightarrow> string) \<Rightarrow> broker \<Rightarrow> request \<Rightarrow> http_exception + api_key_info option" where
  "verify_api_key hash_key b req =
     (if is_localhost_request req then Inr None
      else (let key = select_key req
            in if \<not> truthy key
               then Inl (HTTPException 401
                      ''API key required. Provide via X-API-Key header or api_key query parameter.'')
               else (case validate_key hash_key b (case key of Some k \<Rightarrow> k | None \<Rightarrow> []) of
                       None \<Rightarrow> Inl (HTTPException 401 ''Invalid API key.'')
                     | Some key_info \<Rightarrow> Inr (Some key_info))))"

record tts_request =
  req_text :: string
  req_gender :: "string option"
  req_area :: "string option"
  req_emotion :: "string option"
  req_speed :: real
  req_quality :: string
  req_reference_audio :: "string option"
  req_reference_text :: "string option"
  req_trim_audio_to :: "real option"

datatype JobStatus = PENDING | PROCESSING | COMPLETED | ERROR

fun JobStatus_of :: "string \<Rightarrow> JobStatus option" where
  "JobStatus_of s =
     (if s = ''pending'' then Some PENDING
      else if s = ''processing'' then Some PROCESSING
      else if s = ''completed'' then Some COMPLETED
      else if s = ''error'' then Some ERROR
      else None)"

record tts_async_response =
  ar_job_id :: string
  ar_status :: JobStatus
  ar_queue_position :: int
  ar_estimated_wait :: "real option"

text \<open>
  \<open>synthesize_async\<close>, after validation of the body and the credential gate.
  \<open>new_id\<close> is the fresh \<open>uuid4\<close>, \<open>now\<close> the \<open>created_at\<close> default of the job
  and \<open>job_timeout\<close> the configured \<open>JOB_TIMEOUT\<close>.
\<close>

definition synthesize_async ::
  "broker \<Rightarrow> tts_request \<Rightarrow> api_key_info option \<Rightarrow> string \<Rightarrow> real \<Rightarrow> int
     \<Rightarrow> tts_async_response \<times> broker" where
  "synthesize_async b req api_key_info new_id now job_timeout =
     (let job = \<lparr>job_id = new_id, job_text = req_text req, gender = req_gender req,
                 area = req_area req, emotion = req_emotion req, speed = req_speed req,
                 quality = req_quality req, reference_audio = req_reference_audio req,
                 reference_text = req_reference_text req, trim_audio_to = req_trim_audio_to req,
                 created_at = now, timeout = job_timeout\<rparr>;
          b1 = enqueue_job b job (req_quality req);
          queue_position = get_queue_size b1 (Some (req_quality req));
          n_workers = int (length (get_active_workers b1));
          estimated_wait =
            (if n_workers > 0
             then Some ((real_of_int queue_position / real_of_int n_workers) * AVG_GENERATION_TIME)
             else None);
          b2 = (case api_key_info of
                  None \<Rightarrow> b1
                | Some info \<Rightarrow> increment_usage b1 (info_key_id info) 0)
      in (\<lparr>ar_job_id = new_id, ar_status = PENDING, ar_queue_position = queue_position,
           ar_estimated_wait = estimated_wait\<rparr>, b2))"

record job_status_response =
  sr_job_id :: string
  sr_status :: JobStatus
  sr_queue_position :: "int option"
  sr_audio_url :: "string option"
  sr_generation_time :: "real option"
  sr_error :: "string option"

text \<open>
  The handler of \<open>GET /job/{job_id}\<close> (\<open>get_job_status\<close> of the gateway; the name
  is taken by the broker client's method). \<open>JobStatus(status)\<close> raises on a string
  outside the enumeration, which the server answers with 500. The position is asked
  for with the default quality of \<open>get_queue_position\<close>.
\<close>

definition gateway_get_job_status :: "broker \<Rightarrow> string \<Rightarrow> http_exception + job_status_response" where
  "gateway_get_job_status b jid =
     (case get_job_status b jid of
        None \<Rightarrow> Inl (HTTPException 404 ''Job not found'')
      | Some st \<Rightarrow>
          (let result = get_result b jid
           in case JobStatus_of st of
                None \<Rightarrow> Inl (HTTPException 500 ''Internal Server Error'')
              | Some js \<Rightarrow>
                  (let response = \<lparr>sr_job_id = jid, sr_status = js, sr_queue_position = None,
                                    sr_audio_url = None, sr_generation_time = None, sr_error = None\<rparr>
                   in if st = ''pending''
                      then Inr (response\<lparr>sr_queue_position := Some (get_queue_position b jid ''high'')\<rparr>)
                      else if st = ''completed'' \<and> result \<noteq> None
                      then Inr (response\<lparr>sr_audio_url := Some (''/job/'' @ jid @ ''/audio''),
                                  sr_generation_time := (case result of Some r \<Rightarrow> generation_time r | None \<Rightarrow> None)\<rparr>)
                      else if st = ''error'' \<and> result \<noteq> None
                      then Inr (response\<lparr>sr_error := (case result of Some r \<Rightarrow> error r | None \<Rightarrow> None)\<rparr>)
                      else Inr response)))"

record audio_response =
  content :: string
  media_type :: string
  content_disposition :: string
  x_generation_time :: "real option"

text \<open>
  The handler of \<open>GET /job/{job_id}/audio\<close>. \<open>b64decode\<close> is \<open>base64.b64decode\<close>,
  \<open>None\<close> where it raises; an exception that the handler does not catch is answered
  with 500.
\<close>

definition get_job_audio ::
  "(string \<Rightarrow> string option) \<Rightarrow> broker \<Rightarrow> string \<Rightarrow> http_exception + audio_response" where
  "get_job_audio b64decode b jid =
     (case get_result b jid of
        None \<Rightarrow> Inl (HTTPException 404 ''Job not found or expired'')
      | Some result \<Rightarrow>
          (if status result \<noteq> Some ''completed''
           then Inl (HTTPException 400
                  (''Job status is '' @ (case status result of None \<Rightarrow> ''None'' | Some s \<Rightarrow> s)
                     @ '', not completed''))
           else (case audio result of
                   None \<Rightarrow> Inl (HTTPException 500 ''Internal Server Error'')
                 | Some a \<Rightarrow>
                     (case b64decode a of
                        None \<Rightarrow> Inl (HTTPException 500 ''Internal Server Error'')
                      | Some audio_bytes \<Rightarrow>
                          Inr \<lparr>content = audio_bytes, media_type = ''audio/wav'',
                               content_disposition = ''attachment; filename='' @ jid @ ''.wav'',
                               x_generation_time = generation_time result\<rparr>))))"

subsection \<open>Histories of the key store\<close>

text \<open>The operations that write API key records, and a run of them from a store.\<close>

datatype key_op = Create string string real | Delete string | Increment string real

fun apply_key_op :: "(string \<Rightarrow> string) \<Rightarrow> broker \<Rightarrow> key_op \<Rightarrow> broker" where
  "apply_key_op hash_key b (Create nm token now) = snd (create_key hash_key b nm token now)"
| "apply_key_op hash_key b (Delete kid) = snd (delete_key b kid)"
| "apply_key_op hash_key b (Increment kid secs) = increment_usage b kid secs"

fun run_key_ops :: "(string \<Rightarrow> string) \<Rightarrow> broker \<Rightarrow> key_op list \<Rightarrow> broker" where
  "run_key_ops hash_key b [] = b"
| "run_key_ops hash_key b (x # xs) = run_key_ops hash_key (apply_key_op hash_key b x) xs"

text \<open>The full secrets that the \<open>create_key\<close> calls of a run hand out.\<close>

fun created_secrets :: "key_op list \<Rightarrow> string list" where
  "created_secrets [] = []"
| "created_secrets (Create nm token now # xs) = fst (generate_api_key token) # created_secrets xs"
| "created_secrets (x # xs) = created_secrets xs"

section \<open>Concrete inputs\<close>

definition sample_job :: "string \<Rightarrow> string \<Rightarrow> tts_job" where
  "sample_job jid q =
     \<lparr>job_id = jid, job_text = ''xin chao'', gender = Some ''female'', area = Some ''northern'',
      emotion = None, speed = 1, quality = q, reference_audio = None, reference_text = None,
      trim_audio_to = None, created_at = 0, timeout = 120\<rparr>"

definition sample_token :: string where
  "sample_token = ''0123456789abcdef0123456789abcdef''"

definition sample_secret :: string where
  "sample_secret = ''vvtts_0123456789abcdef0123456789abcdef''"

definition sample_hash :: "string \<Rightarrow> string" where
  "sample_hash s = rev s"

definition sample_engine :: engine where
  "sample_engine =
     \<lparr>preprocess_reference = (\<lambda>a. if a = ''UklGRg=='' then Inr ''/tmp/ref.wav''
                                   else Inl (''Decoding failed. ffmpeg returned error code: 1'', ''CouldntDecodeError'')),
      synthesize_to_bytes = (\<lambda>t g a e p r. if t = ''boom'' then Inl (''engine failed'', ''RuntimeError'')
                                            else Inr (''RIFF'', 2)),
      b64encode = (\<lambda>s. ''b64:'' @ s),
      round3 = (\<lambda>x. x),
      elapsed = 1,
      finish_time = 10\<rparr>"

definition sample_b64decode :: "string \<Rightarrow> string option" where
  "sample_b64decode s = (if take 4 s = ''b64:'' then Some (drop 4 s) else None)"

definition sample_worker :: "string \<Rightarrow> tts_worker" where
  "sample_worker q =
     \<lparr>worker_id = ''worker-1'', w_quality = q, nfe_steps = 32, heartbeat_interval = 30,
      running = True, last_heartbeat = 0\<rparr>"

definition sample_request :: "string \<Rightarrow> tts_request" where
  "sample_request q =
     \<lparr>req_text = ''xin chao'', req_gender = Some ''female'', req_area = Some ''northern'',
      req_emotion = None, req_speed = 1, req_quality = q, req_reference_audio = None,
      req_reference_text = None, req_trim_audio_to = None\<rparr>"

text \<open>A job that asks for voice cloning with a reference that is not an audio file.\<close>

definition cloning_job :: "string \<Rightarrow> string \<Rightarrow> tts_job" where
  "cloning_job jid q =
     (sample_job jid q)\<lparr>reference_audio := Some ''AAAA'', reference_text := Some ''mau''\<rparr>"

text \<open>A store with one key, and requests from outside the host.\<close>

definition keyed_broker :: broker where
  "keyed_broker = snd (create_key sample_hash empty_broker ''alice'' sample_token 5)"

definition external_request :: "string option \<Rightarrow> string option \<Rightarrow> request" where
  "external_request hdr qry =
     \<lparr>client_host = Some ''203.0.113.7'', x_forwarded_for = None, x_api_key = hdr, api_key = qry\<rparr>"

definition forwarded_request :: "string \<Rightarrow> request" where
  "forwarded_request fwd =
     \<lparr>client_host = Some ''203.0.113.7'', x_forwarded_for = Some fwd, x_api_key = None,
      api_key = None\<rparr>"

text \<open>A broker with one registered worker and empty queues.\<close>

definition one_worker_broker :: broker where
  "one_worker_broker = register_worker empty_broker ''worker-1'' ''high'' 0"

section \<open>Queue order\<close>

lemma queues_set_status_key [simp]: "queues (set_status_key b k v) = queues b"
  by (simp add: set_status_key_def)



lemma brpop_last:
  "brpop b k = (if queues b k = [] then (None, b)
     else (Some (last (queues b k)), b\<lparr>queues := (queues b)(k := butlast (queues b k))\<rparr>))"
  by (cases "queues b k") (simp_all add: brpop_def)

lemma dequeue_arrival:
  assumes "rev (queues b (get_queue_key q)) = oldest # rest"
  shows "dequeue_job b q t = (Some oldest, b\<lparr>queues := (queues b)(get_queue_key q := rev rest)\<rparr>)"
proof -
  from assms have "queues b (get_queue_key q) = rev rest @ [oldest]"
    by (metis rev.simps(2) rev_rev_ident)
  then show ?thesis
    by (simp add: dequeue_job_def brpop_last)
qed

lemma dequeue_many_arrival:
  "rev (queues b (get_queue_key q)) = js @ rest \<Longrightarrow>
   dequeue_many b q (length js) = (js, b\<lparr>queues := (queues b)(get_queue_key q := rev rest)\<rparr>)"
proof (induction js arbitrary: b)
  case Nil
  then have "queues b (get_queue_key q) = rev rest" by (metis append_Nil rev_rev_ident)
  then have "(queues b)(get_queue_key q := rev rest) = queues b" by auto
  then show ?case by simp
next
  case (Cons j js)
  then have r: "rev (queues b (get_queue_key q)) = j # (js @ rest)" by simp
  let ?b1 = "b\<lparr>queues := (queues b)(get_queue_key q := rev (js @ rest))\<rparr>"
  have d: "dequeue_job b q 5 = (Some j, ?b1)" using dequeue_arrival [OF r] .
  have q1: "rev (queues ?b1 (get_queue_key q)) = js @ rest" by simp
  have u: "?b1\<lparr>queues := (queues ?b1)(get_queue_key q := rev rest)\<rparr>
             = b\<lparr>queues := (queues b)(get_queue_key q := rev rest)\<rparr>"
    by simp
  have "dequeue_many ?b1 q (length js) = (js, b\<lparr>queues := (queues b)(get_queue_key q := rev rest)\<rparr>)"
    using Cons.IH [OF q1] by (simp only: u)
  then show ?case by (simp add: d fun_upd_def)
qed




subsection \<open>Position in the queue\<close>

lemma scan_position_takeWhile:
  "scan_position jid js i =
     (if \<exists>j\<in>set js. job_id j = jid
      then int (i + length (takeWhile (\<lambda>j. job_id j \<noteq> jid) js)) else - 1)"
  by (induction js arbitrary: i) auto

text \<open>
  Claim C5. \<open>get_queue_position\<close> returns \<open>-1\<close> exactly when no job of the
  quality's queue carries the id; otherwise it returns the number \<open>n\<close> of jobs that
  the next dequeues hand out before a job with this id: the first \<open>n\<close> dequeued jobs
  have other ids and dequeue number \<open>n + 1\<close> returns the job.
\<close>

theorem queue_position_fifo:
  "(get_queue_position b jid q = - 1 \<longleftrightarrow> (\<forall>j\<in>set (queues b (get_queue_key q)). job_id j \<noteq> jid))
   \<and> (get_queue_position b jid q \<noteq> - 1 \<longrightarrow>
        (\<exists>n before job b'.
            get_queue_position b jid q = int n
          \<and> dequeue_many b q (Suc n) = (before @ [job], b')
          \<and> length before = n
          \<and> (\<forall>j\<in>set before. job_id j \<noteq> jid)
          \<and> job_id job = jid))"
proof -
  let ?arr = "rev (queues b (get_queue_key q))"
  let ?P = "\<lambda>j. job_id j \<noteq> jid"
  have pos: "get_queue_position b jid q =
      (if \<exists>j\<in>set ?arr. job_id j = jid then int (length (takeWhile ?P ?arr)) else - 1)"
    by (simp add: get_queue_position_def Let_def scan_position_takeWhile del: set_rev)
  have first: "get_queue_position b jid q = - 1 \<longleftrightarrow> (\<forall>j\<in>set (queues b (get_queue_key q)). job_id j \<noteq> jid)"
    using pos by auto
  have second: "\<exists>n before job b'.
            get_queue_position b jid q = int n
          \<and> dequeue_many b q (Suc n) = (before @ [job], b')
          \<and> length before = n
          \<and> (\<forall>j\<in>set before. job_id j \<noteq> jid)
          \<and> job_id job = jid" if ne: "get_queue_position b jid q \<noteq> - 1"
  proof -
    from ne pos have ex: "\<exists>j\<in>set ?arr. job_id j = jid" by (auto split: if_splits)
    then have dw: "dropWhile ?P ?arr \<noteq> []" by (simp del: set_rev) 
    then obtain job rest where dr: "dropWhile ?P ?arr = job # rest" by (cases "dropWhile ?P ?arr") auto
    have jj: "job_id job = jid" using dr hd_dropWhile [of ?P ?arr] dw by (metis list.sel(1))
    let ?before = "takeWhile ?P ?arr"
    have split: "?arr = (?before @ [job]) @ rest"
      using dr takeWhile_dropWhile_id [of ?P ?arr] by simp
    have "dequeue_many b q (length (?before @ [job])) =
            (?before @ [job], b\<lparr>queues := (queues b)(get_queue_key q := rev rest)\<rparr>)"
      by (rule dequeue_many_arrival [OF split])
    then have dm: "dequeue_many b q (Suc (length ?before)) =
            (?before @ [job], b\<lparr>queues := (queues b)(get_queue_key q := rev rest)\<rparr>)"
      by simp
    have all: "\<forall>j\<in>set ?before. job_id j \<noteq> jid" by (auto dest: set_takeWhileD)
    have "get_queue_position b jid q = int (length ?before)" using pos ex by simp
    with dm all jj show ?thesis by blast
  qed
  from first second show ?thesis by blast
qed

theorem queue_position_fifo_witness:
  "get_queue_position (enqueue_all empty_broker [sample_job ''a'' ''fast'', sample_job ''b'' ''fast''] ''fast'') ''b'' ''fast'' = 1
   \<and> get_queue_position (enqueue_all empty_broker [sample_job ''a'' ''fast'', sample_job ''b'' ''fast''] ''fast'') ''c'' ''fast'' = - 1
   \<and> (\<exists>n before job b'.
        dequeue_many (enqueue_all empty_broker [sample_job ''a'' ''fast'', sample_job ''b'' ''fast''] ''fast'') ''fast'' (Suc n)
          = (before @ [job], b') \<and> int n = 1 \<and> job_id job = ''b'')"
proof -
  let ?b = "enqueue_all empty_broker [sample_job ''a'' ''fast'', sample_job ''b'' ''fast''] ''fast''"
  have p1: "get_queue_position ?b ''b'' ''fast'' = 1"
    by (simp add: get_queue_position_def enqueue_job_def lpush_def set_status_key_def
        empty_broker_def get_queue_key_def QUALITY_FAST_def JOBS_QUEUE_FAST_def sample_job_def)
  have p2: "get_queue_position ?b ''c'' ''fast'' = - 1"
    by (simp add: get_queue_position_def enqueue_job_def lpush_def set_status_key_def
        empty_broker_def get_queue_key_def QUALITY_FAST_def JOBS_QUEUE_FAST_def sample_job_def)
  from p1 have "get_queue_position ?b ''b'' ''fast'' \<noteq> - 1" by simp
  with queue_position_fifo [of ?b "''b''" "''fast''"] p1
  have "\<exists>n before job b'. dequeue_many ?b ''fast'' (Suc n) = (before @ [job], b') \<and> int n = 1 \<and> job_id job = ''b''"
    by auto
  with p1 p2 show ?thesis by simp
qed

section \<open>Routing by quality\<close>

text \<open>
  Claim C10. Every quality string other than \<open>fast\<close> selects the high-quality queue:
  \<open>enqueue_job\<close> pushes onto it and leaves the fast queue alone, \<open>dequeue_job\<close>
  pops from it, and neither has a failing branch. A worker built with a string outside
  the presets gets the quality \<open>high\<close> and, unless a non-zero \<open>nfe_steps\<close> is
  passed, the preset of \<open>high\<close>, 32.
\<close>

theorem invalid_quality_routed_to_high:
  assumes "q \<noteq> ''fast''"
  shows "get_queue_key q = JOBS_QUEUE_HIGH
    \<and> queues (enqueue_job b job q) JOBS_QUEUE_HIGH = job # queues b JOBS_QUEUE_HIGH
    \<and> queues (enqueue_job b job q) JOBS_QUEUE_FAST = queues b JOBS_QUEUE_FAST
    \<and> dequeue_job b q t = brpop b JOBS_QUEUE_HIGH
    \<and> (q \<noteq> ''high'' \<longrightarrow>
         (\<exists>w. TTSWorker_init wid fresh_id q nfe hb = Inr w \<and> w_quality w = ''high''
            \<and> nfe_steps w = (case nfe of None \<Rightarrow> 32 | Some n \<Rightarrow> if n = 0 then 32 else n)))"
proof -
  have k: "get_queue_key q = JOBS_QUEUE_HIGH"
    using assms by (simp add: get_queue_key_def QUALITY_FAST_def)
  have ne: "JOBS_QUEUE_FAST \<noteq> JOBS_QUEUE_HIGH"
    by (simp add: JOBS_QUEUE_FAST_def JOBS_QUEUE_HIGH_def)
  have e1: "queues (enqueue_job b job q) JOBS_QUEUE_HIGH = job # queues b JOBS_QUEUE_HIGH"
    by (simp add: enqueue_job_def lpush_def set_status_key_def k)
  have e2: "queues (enqueue_job b job q) JOBS_QUEUE_FAST = queues b JOBS_QUEUE_FAST"
    using ne by (simp add: enqueue_job_def lpush_def set_status_key_def k)
  have d: "dequeue_job b q t = brpop b JOBS_QUEUE_HIGH"
    by (simp add: dequeue_job_def k)
  have w: "\<exists>w. TTSWorker_init wid fresh_id q nfe hb = Inr w \<and> w_quality w = ''high''
            \<and> nfe_steps w = (case nfe of None \<Rightarrow> 32 | Some n \<Rightarrow> if n = 0 then 32 else n)"
    if "q \<noteq> ''high''"
  proof -
    have "map_of QUALITY_PRESETS q = None"
      using assms that by (simp add: QUALITY_PRESETS_def)
    then show ?thesis
      by (cases nfe) (simp_all add: TTSWorker_init_def QUALITY_PRESETS_def Let_def)
  qed
  from k e1 e2 d w show ?thesis by blast
qed

theorem invalid_quality_routed_to_high_witness:
  "''ultra'' \<noteq> ''fast'' \<and> get_queue_key ''ultra'' = ''tts:jobs:high''
   \<and> fst (dequeue_job (enqueue_job empty_broker (sample_job ''a'' ''ultra'') ''ultra'') ''ultra'' 5)
        = Some (sample_job ''a'' ''ultra'')
   \<and> (\<exists>w. TTSWorker_init None ''worker-1'' ''ultra'' None 30 = Inr w \<and> w_quality w = ''high''
          \<and> nfe_steps w = 32)"
proof -
  have h: "''ultra'' \<noteq> ''fast''" by simp
  note T = invalid_quality_routed_to_high [OF h, of empty_broker "sample_job ''a'' ''ultra''" 5 None "''worker-1''" None 30]
  have "get_queue_key ''ultra'' = ''tts:jobs:high''"
    using T by (simp add: JOBS_QUEUE_HIGH_def)
  moreover have "fst (dequeue_job (enqueue_job empty_broker (sample_job ''a'' ''ultra'') ''ultra'') ''ultra'' 5)
        = Some (sample_job ''a'' ''ultra'')"
    using invalid_quality_routed_to_high [OF h, of "enqueue_job empty_broker (sample_job ''a'' ''ultra'') ''ultra''" "sample_job ''a'' ''ultra''" 5 None "''worker-1''" None 30] T
    by (simp add: brpop_def empty_broker_def)
  moreover have "\<exists>w. TTSWorker_init None ''worker-1'' ''ultra'' None 30 = Inr w \<and> w_quality w = ''high''
          \<and> nfe_steps w = 32"
    using T by simp
  ultimately show ?thesis by simp
qed

section \<open>Usage counters\<close>

lemma key_data_bump:
  "kd\<lparr>requests_count := requests_count kd + 1, audio_seconds := audio_seconds kd + secs\<rparr> =
     \<lparr>key_id = key_id kd, full_key_hash = full_key_hash kd, name = name kd,
      key_created_at = key_created_at kd, requests_count = requests_count kd + 1,
      audio_seconds = audio_seconds kd + secs\<rparr>"
  by (cases kd) simp

text \<open>
  Claim C9. \<open>increment_usage\<close> on a key id without a record returns the broker
  unchanged. On a record it rewrites that record alone: \<open>requests_count\<close> grows by
  one whatever the seconds, \<open>audio_seconds\<close> grows by the seconds given, and
  \<open>key_id\<close>, \<open>name\<close>, \<open>created_at\<close> and the stored hash stay.
\<close>

theorem increment_usage_effect:
  "(apikeys b (APIKEY_PREFIX @ kid) = None \<longrightarrow> increment_usage b kid secs = b)
   \<and> (\<forall>kd. apikeys b (APIKEY_PREFIX @ kid) = Some kd \<longrightarrow>
        increment_usage b kid secs =
          b\<lparr>apikeys := (apikeys b)(APIKEY_PREFIX @ kid \<mapsto>
             \<lparr>key_id = key_id kd, full_key_hash = full_key_hash kd, name = name kd,
              key_created_at = key_created_at kd, requests_count = requests_count kd + 1,
              audio_seconds = audio_seconds kd + secs\<rparr>)\<rparr>)"
  by (simp add: increment_usage_def Let_def key_data_bump)

theorem increment_usage_effect_witness:
  "increment_usage empty_broker ''89abcdef'' 2 = empty_broker
   \<and> apikeys (increment_usage (snd (create_key sample_hash empty_broker ''alice'' sample_token 5)) ''89abcdef'' 2)
        ''apikey:89abcdef''
      = Some \<lparr>key_id = ''89abcdef'', full_key_hash = sample_hash (''vvtts_'' @ sample_token),
              name = ''alice'', key_created_at = 5, requests_count = 1, audio_seconds = 2\<rparr>"
proof -
  let ?b = "snd (create_key sample_hash empty_broker ''alice'' sample_token 5)"
  let ?kd = "\<lparr>key_id = ''89abcdef'', full_key_hash = sample_hash (''vvtts_'' @ sample_token),
              name = ''alice'', key_created_at = 5, requests_count = 0, audio_seconds = 0\<rparr>"
  have n: "apikeys empty_broker (APIKEY_PREFIX @ ''89abcdef'') = None"
    by (simp add: empty_broker_def)
  have s: "apikeys ?b (APIKEY_PREFIX @ ''89abcdef'') = Some ?kd"
    by (simp add: create_key_def generate_api_key_def last8_def sample_token_def
        KEY_PREFIX_def APIKEY_PREFIX_def empty_broker_def)
  have "increment_usage empty_broker ''89abcdef'' 2 = empty_broker"
    using increment_usage_effect [of empty_broker "''89abcdef''" 2] n by blast
  moreover have "increment_usage ?b ''89abcdef'' 2 =
      ?b\<lparr>apikeys := (apikeys ?b)(APIKEY_PREFIX @ ''89abcdef'' \<mapsto>
             \<lparr>key_id = key_id ?kd, full_key_hash = full_key_hash ?kd, name = name ?kd,
              key_created_at = key_created_at ?kd, requests_count = requests_count ?kd + 1,
              audio_seconds = audio_seconds ?kd + 2\<rparr>)\<rparr>"
    using increment_usage_effect [of ?b "''89abcdef''" 2] s by blast
  then have "apikeys (increment_usage ?b ''89abcdef'' 2) ''apikey:89abcdef''
      = Some \<lparr>key_id = ''89abcdef'', full_key_hash = sample_hash (''vvtts_'' @ sample_token),
              name = ''alice'', key_created_at = 5, requests_count = 1, audio_seconds = 2\<rparr>"
    by (simp add: APIKEY_PREFIX_def)
  ultimately show ?thesis by blast
qed

section \<open>Creating and validating keys\<close>

lemma get_key_id_of_generated:
  assumes "length token = KEY_LENGTH"
  shows "get_key_id_from_full_key (KEY_PREFIX @ token) = Some (last8 token)"
  using assms by (simp add: get_key_id_from_full_key_def KEY_PREFIX_def Let_def)

lemma last8_nonempty: "length token = KEY_LENGTH \<Longrightarrow> last8 token \<noteq> []"
  by (simp add: last8_def KEY_LENGTH_def)

lemma validate_after_create:
  assumes "length token = KEY_LENGTH"
  shows "validate_key h (snd (create_key h b nm token now)) (fst (fst (create_key h b nm token now)))
           = Some (snd (fst (create_key h b nm token now)))"
  using assms
  by (simp add: validate_key_def create_key_def generate_api_key_def Let_def
      get_key_id_of_generated last8_nonempty)

lemma validate_Some_hash:
  "validate_key h b s = Some info \<Longrightarrow> \<exists>k kd. apikeys b k = Some kd \<and> full_key_hash kd = h s"
  by (auto simp: validate_key_def split: option.splits if_splits)

lemma apply_key_op_hashes:
  assumes "\<forall>k kd. apikeys b k = Some kd \<longrightarrow> full_key_hash kd \<in> h ` S"
  shows "\<forall>k kd. apikeys (apply_key_op h b x) k = Some kd \<longrightarrow>
           full_key_hash kd \<in> h ` (S \<union> (case x of Create nm token now \<Rightarrow> {fst (generate_api_key token)} | _ \<Rightarrow> {}))"
proof (cases x)
  case (Create nm token now)
  then show ?thesis using assms
    by (auto simp: create_key_def generate_api_key_def Let_def split: if_splits)
next
  case (Delete kid)
  then show ?thesis using assms
    by (auto simp: delete_key_def split: if_splits)
next
  case (Increment kid secs)
  then show ?thesis using assms
    by (auto simp: increment_usage_def Let_def split: option.splits if_splits)
qed

lemma created_secrets_Cons:
  "set (created_secrets (x # xs)) =
     (case x of Create nm token now \<Rightarrow> {fst (generate_api_key token)} | _ \<Rightarrow> {}) \<union> set (created_secrets xs)"
  by (cases x) simp_all

lemma run_key_ops_hashes:
  "\<forall>k kd. apikeys b k = Some kd \<longrightarrow> full_key_hash kd \<in> h ` S \<Longrightarrow>
   \<forall>k kd. apikeys (run_key_ops h b ops) k = Some kd \<longrightarrow>
      full_key_hash kd \<in> h ` (S \<union> set (created_secrets ops))"
proof (induction ops arbitrary: b S)
  case Nil
  then show ?case by simp
next
  case (Cons x xs)
  let ?new = "case x of Create nm token now \<Rightarrow> {fst (generate_api_key token)} | _ \<Rightarrow> {}"
  have "\<forall>k kd. apikeys (apply_key_op h b x) k = Some kd \<longrightarrow>
           full_key_hash kd \<in> h ` (S \<union> ?new)"
    by (rule apply_key_op_hashes [OF Cons.prems])
  from Cons.IH [OF this]
  have "\<forall>k kd. apikeys (run_key_ops h (apply_key_op h b x) xs) k = Some kd \<longrightarrow>
      full_key_hash kd \<in> h ` (S \<union> ?new \<union> set (created_secrets xs))" .
  moreover have "S \<union> ?new \<union> set (created_secrets xs) = S \<union> set (created_secrets (x # xs))"
    by (simp only: created_secrets_Cons Un_assoc)
  ultimately show ?case by (simp only: run_key_ops.simps)
qed

text \<open>
  Claim C7. Validating the full secret that \<open>create_key\<close> returns, on the store it
  leaves, gives the info that \<open>create_key\<close> returned. In a store that began without
  keys and was written by \<open>create_key\<close>, \<open>delete_key\<close> and \<open>increment_usage\<close>
  only, a string that is none of the created secrets, and whose hash collides with the
  hash of none of them, does not validate; this covers a wrong prefix, a wrong length, an
  unknown key id and a hash that does not match. The hash function is a parameter.
\<close>

theorem validate_create_roundtrip:
  "(length token = KEY_LENGTH \<longrightarrow>
      validate_key h (snd (create_key h b nm token now)) (fst (fst (create_key h b nm token now)))
        = Some (snd (fst (create_key h b nm token now))))
   \<and> (apikeys b0 = Map.empty \<and> s \<notin> set (created_secrets ops)
        \<and> (\<forall>k\<in>set (created_secrets ops). h k = h s \<longrightarrow> k = s)
      \<longrightarrow> validate_key h (run_key_ops h b0 ops) s = None)"
proof (intro conjI impI)
  assume "length token = KEY_LENGTH"
  then show "validate_key h (snd (create_key h b nm token now)) (fst (fst (create_key h b nm token now)))
        = Some (snd (fst (create_key h b nm token now)))"
    by (rule validate_after_create)
next
  assume a: "apikeys b0 = Map.empty \<and> s \<notin> set (created_secrets ops)
        \<and> (\<forall>k\<in>set (created_secrets ops). h k = h s \<longrightarrow> k = s)"
  then have "\<forall>k kd. apikeys b0 k = Some kd \<longrightarrow> full_key_hash kd \<in> h ` {}" by simp
  from run_key_ops_hashes [OF this]
  have inv: "\<forall>k kd. apikeys (run_key_ops h b0 ops) k = Some kd \<longrightarrow>
      full_key_hash kd \<in> h ` set (created_secrets ops)" by simp
  show "validate_key h (run_key_ops h b0 ops) s = None"
  proof (rule ccontr)
    assume "validate_key h (run_key_ops h b0 ops) s \<noteq> None"
    then obtain info where "validate_key h (run_key_ops h b0 ops) s = Some info" by blast
    from validate_Some_hash [OF this] inv
    have "h s \<in> h ` set (created_secrets ops)" by metis
    then obtain k where "k \<in> set (created_secrets ops)" "h k = h s" by auto
    with a show False by blast
  qed
qed

theorem validate_create_roundtrip_witness:
  "validate_key sample_hash (snd (create_key sample_hash empty_broker ''alice'' sample_token 5))
       (''vvtts_'' @ sample_token)
     = Some \<lparr>info_key_id = ''89abcdef'', info_name = ''alice'', info_created_at = 5,
             info_requests_count = 0, info_audio_seconds = 0\<rparr>
   \<and> validate_key sample_hash (run_key_ops sample_hash empty_broker [Create ''alice'' sample_token 5])
       ''vvtts_1123456789abcdef0123456789abcdef'' = None"
proof -
  let ?ops = "[Create ''alice'' sample_token 5]"
  let ?s = "''vvtts_1123456789abcdef0123456789abcdef''"
  note T = validate_create_roundtrip [of sample_token sample_hash empty_broker "''alice''" 5
             empty_broker ?s ?ops]
  have l: "length sample_token = KEY_LENGTH"
    by (simp add: sample_token_def KEY_LENGTH_def)
  have h: "apikeys empty_broker = Map.empty \<and> ?s \<notin> set (created_secrets ?ops)
        \<and> (\<forall>k\<in>set (created_secrets ?ops). sample_hash k = sample_hash ?s \<longrightarrow> k = ?s)"
    by (simp add: generate_api_key_def KEY_PREFIX_def empty_broker_def sample_hash_def sample_token_def)
  have r: "create_key sample_hash empty_broker ''alice'' sample_token 5 =
     ((''vvtts_'' @ sample_token,
       \<lparr>info_key_id = ''89abcdef'', info_name = ''alice'', info_created_at = 5,
             info_requests_count = 0, info_audio_seconds = 0\<rparr>),
      snd (create_key sample_hash empty_broker ''alice'' sample_token 5))"
    by (simp add: create_key_def generate_api_key_def KEY_PREFIX_def last8_def sample_token_def)
  from T l have "validate_key sample_hash (snd (create_key sample_hash empty_broker ''alice'' sample_token 5))
       (fst (fst (create_key sample_hash empty_broker ''alice'' sample_token 5)))
     = Some (snd (fst (create_key sample_hash empty_broker ''alice'' sample_token 5)))" by blast
  then have "validate_key sample_hash (snd (create_key sample_hash empty_broker ''alice'' sample_token 5))
       (''vvtts_'' @ sample_token)
     = Some \<lparr>info_key_id = ''89abcdef'', info_name = ''alice'', info_created_at = 5,
             info_requests_count = 0, info_audio_seconds = 0\<rparr>"
    by (subst (asm) (2 3) r) simp
  moreover from T h have "validate_key sample_hash (run_key_ops sample_hash empty_broker ?ops) ?s = None"
    by blast
  ultimately show ?thesis by blast
qed

section \<open>Downloading the audio\<close>

text \<open>
  Claim C8. \<open>GET /job/{id}/audio\<close> answers 404 when no result is stored for the id,
  400 when a result is stored whose status is not \<open>completed\<close>, and the decoded audio
  of the stored result when its status is \<open>completed\<close>; so it returns audio exactly
  when a stored result with status \<open>completed\<close> exists. The stored result is one that
  a worker wrote: a completed result carries base64 audio that decodes
  (\<open>process_job_result_decodes\<close> below).
\<close>

theorem get_job_audio_responses:
  assumes "\<forall>r. get_result b jid = Some r \<longrightarrow> status r = Some ''completed'' \<longrightarrow>
             (\<exists>a audio_bytes. audio r = Some a \<and> b64decode a = Some audio_bytes)"
  shows "(get_result b jid = None \<longrightarrow>
            get_job_audio b64decode b jid = Inl (HTTPException 404 ''Job not found or expired''))
    \<and> (\<forall>r. get_result b jid = Some r \<longrightarrow> status r \<noteq> Some ''completed'' \<longrightarrow>
            (\<exists>msg. get_job_audio b64decode b jid = Inl (HTTPException 400 msg)))
    \<and> (\<forall>r. get_result b jid = Some r \<longrightarrow> status r = Some ''completed'' \<longrightarrow>
            (\<exists>resp a. get_job_audio b64decode b jid = Inr resp \<and> audio r = Some a
               \<and> b64decode a = Some (content resp)))
    \<and> ((\<exists>resp. get_job_audio b64decode b jid = Inr resp) \<longleftrightarrow>
          (\<exists>r. get_result b jid = Some r \<and> status r = Some ''completed''))"
proof (cases "get_result b jid")
  case None
  then show ?thesis by (simp add: get_job_audio_def)
next
  case (Some r)
  show ?thesis
  proof (cases "status r = Some ''completed''")
    case False
    with Some show ?thesis by (simp add: get_job_audio_def)
  next
    case True
    with Some assms obtain a audio_bytes where "audio r = Some a" "b64decode a = Some audio_bytes"
      by blast
    with Some True show ?thesis by (simp add: get_job_audio_def)
  qed
qed

lemma process_job_result_decodes:
  assumes "\<forall>x. b64decode (b64encode eng x) = Some x"
    and "status (fst (process_job eng b job)) = Some ''completed''"
  shows "\<exists>a audio_bytes. audio (fst (process_job eng b job)) = Some a \<and> b64decode a = Some audio_bytes"
  using assms
  by (auto simp: process_job_def Let_def error_result_def completed_result_def
      split: sum.splits prod.splits if_splits)

lemma sample_completed_run:
  "get_result (snd (worker_iteration sample_engine 0 (sample_worker ''high'')
       (enqueue_job empty_broker (sample_job ''j1'' ''high'') ''high''))) ''j1''
   = Some \<lparr>status = Some ''completed'', audio = Some ''b64:RIFF'', generation_time = Some 1,
       audio_duration = Some 2, error = None, error_code = None, completed_at = 10\<rparr>"
  by (simp add: worker_iteration_def update_heartbeat_def sample_worker_def dequeue_job_def
      brpop_def enqueue_job_def lpush_def set_status_key_def empty_broker_def get_queue_key_def
      QUALITY_FAST_def JOBS_QUEUE_HIGH_def process_job_def truthy_def sample_job_def
      set_job_status_def sample_engine_def completed_result_def increment_metric_def
      store_result_def get_result_def Let_def)

theorem get_job_audio_responses_witness:
  "get_job_audio sample_b64decode empty_broker ''j1'' = Inl (HTTPException 404 ''Job not found or expired'')
   \<and> (\<exists>resp. get_job_audio sample_b64decode
         (snd (worker_iteration sample_engine 0 (sample_worker ''high'')
            (enqueue_job empty_broker (sample_job ''j1'' ''high'') ''high''))) ''j1'' = Inr resp
         \<and> content resp = ''RIFF'')"
proof -
  let ?b = "snd (worker_iteration sample_engine 0 (sample_worker ''high'')
            (enqueue_job empty_broker (sample_job ''j1'' ''high'') ''high''))"
  let ?r = "\<lparr>status = Some ''completed'', audio = Some ''b64:RIFF'', generation_time = Some 1,
       audio_duration = Some 2, error = None, error_code = None, completed_at = 10\<rparr>"
  have e: "get_result empty_broker ''j1'' = None"
    by (simp add: get_result_def empty_broker_def)
  then have h0: "\<forall>r. get_result empty_broker ''j1'' = Some r \<longrightarrow> status r = Some ''completed'' \<longrightarrow>
             (\<exists>a audio_bytes. audio r = Some a \<and> sample_b64decode a = Some audio_bytes)"
    by simp
  have g: "get_result ?b ''j1'' = Some ?r" by (rule sample_completed_run)
  have d: "sample_b64decode ''b64:RIFF'' = Some ''RIFF''"
    by (simp add: sample_b64decode_def)
  have h1: "\<forall>r. get_result ?b ''j1'' = Some r \<longrightarrow> status r = Some ''completed'' \<longrightarrow>
             (\<exists>a audio_bytes. audio r = Some a \<and> sample_b64decode a = Some audio_bytes)"
    using g d by simp
  have "get_job_audio sample_b64decode empty_broker ''j1'' = Inl (HTTPException 404 ''Job not found or expired'')"
    using get_job_audio_responses [OF h0] e by blast
  moreover have "\<exists>resp a. get_job_audio sample_b64decode ?b ''j1'' = Inr resp \<and> audio ?r = Some a
               \<and> sample_b64decode a = Some (content resp)"
    using get_job_audio_responses [OF h1] g by simp
  then have "\<exists>resp. get_job_audio sample_b64decode ?b ''j1'' = Inr resp \<and> content resp = ''RIFF''"
    using d by auto
  ultimately show ?thesis by blast
qed

section \<open>Status of a pending job\<close>

text \<open>
  Claim C6. A job enqueued with quality \<open>fast\<close> is pending at the head of the fast
  queue, at position 0 there; \<open>GET /job/{id}\<close> reports the position \<open>-1\<close>, because
  the handler looks the id up in the queue of the default quality.
\<close>

theorem job_status_fast_job_position:
  "gateway_get_job_status (enqueue_job empty_broker (sample_job ''j1'' ''fast'') ''fast'') ''j1''
     = Inr \<lparr>sr_job_id = ''j1'', sr_status = PENDING, sr_queue_position = Some (- 1),
            sr_audio_url = None, sr_generation_time = None, sr_error = None\<rparr>
   \<and> get_queue_position (enqueue_job empty_broker (sample_job ''j1'' ''fast'') ''fast'') ''j1'' ''fast'' = 0"
  by (simp add: gateway_get_job_status_def get_job_status_def get_result_def get_queue_position_def
      enqueue_job_def lpush_def set_status_key_def empty_broker_def get_queue_key_def
      QUALITY_FAST_def JOBS_QUEUE_HIGH_def JOBS_QUEUE_FAST_def sample_job_def Let_def)

section \<open>Order of the status writes\<close>

text \<open>
  When the reference block of \<open>_process_job\<close> raises, the terminal status is the only
  write of the worker; when the engine raises, \<open>processing\<close> is written first.
\<close>

lemma reference_failure_writes:
  assumes "reference_audio job = Some a" "a \<noteq> []" "reference_text job = Some t" "t \<noteq> []"
    and "preprocess_reference eng a = Inl e"
  shows "status_writes (store_result (snd (process_job eng b job)) (job_id job) (fst (process_job eng b job)))
           = status_writes b @ [(STATUS_PREFIX @ job_id job, ''error'')]"
  using assms
  by (simp add: process_job_def truthy_def error_result_def increment_metric_def store_result_def
      set_status_key_def Let_def)

lemma engine_failure_writes:
  assumes "\<not> (truthy (reference_audio job) \<and> truthy (reference_text job))"
    and "synthesize_to_bytes eng (job_text job) (gender job) (area job) (emotion job) None
           (reference_text job) = Inl e"
  shows "status_writes (store_result (snd (process_job eng b job)) (job_id job) (fst (process_job eng b job)))
           = status_writes b @ [(STATUS_PREFIX @ job_id job, ''processing''),
                                (STATUS_PREFIX @ job_id job, ''error'')]"
proof -
  from assms(1) have c: "(truthy (reference_audio job) \<and> truthy (reference_text job)) = False"
    by simp
  show ?thesis
    using assms(2)
    by (simp add: process_job_def c error_result_def increment_metric_def store_result_def
        set_status_key_def set_job_status_def Let_def)
qed

text \<open>
  Claim C1. A job with a reference that is not an audio file is enqueued and then taken by a
  worker: the values written to its status key are \<open>pending\<close> and then \<open>error\<close>,
  without \<open>processing\<close> in between.
\<close>

theorem preprocessing_failure_skips_processing:
  "writes_of (snd (worker_iteration sample_engine 0 (sample_worker ''high'')
       (enqueue_job empty_broker (cloning_job ''j1'' ''high'') ''high''))) ''j1''
   = [''pending'', ''error'']"
  by (simp add: worker_iteration_def update_heartbeat_def sample_worker_def dequeue_job_def
      brpop_def enqueue_job_def lpush_def set_status_key_def empty_broker_def get_queue_key_def
      QUALITY_FAST_def JOBS_QUEUE_HIGH_def process_job_def truthy_def sample_job_def cloning_job_def
      set_job_status_def sample_engine_def completed_result_def error_result_def increment_metric_def
      store_result_def writes_of_def Let_def)

lemma engine_failure_passes_processing:
  "writes_of (snd (worker_iteration sample_engine 0 (sample_worker ''high'')
       (enqueue_job empty_broker ((sample_job ''j1'' ''high'')\<lparr>job_text := ''boom''\<rparr>) ''high''))) ''j1''
   = [''pending'', ''processing'', ''error'']"
  by (simp add: worker_iteration_def update_heartbeat_def sample_worker_def dequeue_job_def
      brpop_def enqueue_job_def lpush_def set_status_key_def empty_broker_def get_queue_key_def
      QUALITY_FAST_def JOBS_QUEUE_HIGH_def process_job_def truthy_def sample_job_def
      set_job_status_def sample_engine_def completed_result_def error_result_def increment_metric_def
      store_result_def writes_of_def Let_def)

lemma success_passes_processing:
  "writes_of (snd (worker_iteration sample_engine 0 (sample_worker ''high'')
       (enqueue_job empty_broker (sample_job ''j1'' ''high'') ''high''))) ''j1''
   = [''pending'', ''processing'', ''completed'']"
  by (simp add: worker_iteration_def update_heartbeat_def sample_worker_def dequeue_job_def
      brpop_def enqueue_job_def lpush_def set_status_key_def empty_broker_def get_queue_key_def
      QUALITY_FAST_def JOBS_QUEUE_HIGH_def process_job_def truthy_def sample_job_def
      set_job_status_def sample_engine_def completed_result_def error_result_def increment_metric_def
      store_result_def writes_of_def Let_def)

section \<open>The credential gate\<close>

lemma empty_not_localhost: "[] \<notin> localhost_ips"
  by (simp add: localhost_ips_def)

lemma strip_Nil: "strip [] = []"
  by (simp add: strip_def)

lemma is_localhost_request_iff:
  "is_localhost_request req \<longleftrightarrow>
     (\<exists>hst. client_host req = Some hst \<and> hst \<in> localhost_ips)
     \<or> (\<exists>v. x_forwarded_for req = Some v
            \<and> strip (takeWhile (\<lambda>c. c \<noteq> CHR '','') v) \<in> localhost_ips)"
proof (cases "\<exists>hst. client_host req = Some hst \<and> hst \<in> localhost_ips")
  case True
  then show ?thesis by (auto simp: is_localhost_request_def)
next
  case False
  then have c: "(case client_host req of None \<Rightarrow> False | Some hst \<Rightarrow> hst \<in> localhost_ips) = False"
    by (cases "client_host req") auto
  show ?thesis
  proof (cases "x_forwarded_for req")
    case None
    with False c show ?thesis by (simp add: is_localhost_request_def)
  next
    case (Some v)
    show ?thesis
    proof (cases "v = []")
      case True
      with Some False c show ?thesis
        by (simp add: is_localhost_request_def strip_Nil empty_not_localhost)
    next
      case nonempty: False
      with Some False c show ?thesis
        by (simp add: is_localhost_request_def Let_def)
    qed
  qed
qed

lemma select_key_or:
  "select_key req = (if truthy (x_api_key req) then x_api_key req else api_key req)"
  by (simp add: select_key_def truthy_def split: option.splits)

text \<open>
  Claim C2, amended. A request is from localhost when its client host is one of
  \<open>127.0.0.1\<close>, \<open>::1\<close>, \<open>localhost\<close>, or when the first comma-separated element
  of \<open>X-Forwarded-For\<close>, with surrounding whitespace stripped, is one of them. The
  credential is the \<open>X-API-Key\<close> header when it is present and not empty, otherwise
  the \<open>api_key\<close> query parameter. The gate accepts exactly when the request is from
  localhost or this credential is not empty and validates. Otherwise the answer is 401:
  \<open>API key required\<close> when the credential is missing or empty, \<open>Invalid API key\<close>
  when it does not validate.
\<close>

theorem credential_gate:
  "(is_localhost_request req \<longleftrightarrow>
       (\<exists>hst. client_host req = Some hst \<and> hst \<in> localhost_ips)
     \<or> (\<exists>v. x_forwarded_for req = Some v
            \<and> strip (takeWhile (\<lambda>c. c \<noteq> CHR '','') v) \<in> localhost_ips))
   \<and> select_key req = (if truthy (x_api_key req) then x_api_key req else api_key req)
   \<and> ((\<exists>info. verify_api_key h b req = Inr info) \<longleftrightarrow>
         is_localhost_request req
       \<or> (\<exists>k. select_key req = Some k \<and> k \<noteq> [] \<and> validate_key h b k \<noteq> None))
   \<and> (\<not> is_localhost_request req \<and> \<not> truthy (select_key req) \<longrightarrow>
         verify_api_key h b req = Inl (HTTPException 401
            ''API key required. Provide via X-API-Key header or api_key query parameter.''))
   \<and> (\<not> is_localhost_request req \<and> (\<exists>k. select_key req = Some k \<and> k \<noteq> [] \<and> validate_key h b k = None) \<longrightarrow>
         verify_api_key h b req = Inl (HTTPException 401 ''Invalid API key.''))"
proof -
  have acc: "(\<exists>info. verify_api_key h b req = Inr info) \<longleftrightarrow>
         is_localhost_request req
       \<or> (\<exists>k. select_key req = Some k \<and> k \<noteq> [] \<and> validate_key h b k \<noteq> None)"
    by (cases "select_key req")
       (auto simp: verify_api_key_def truthy_def Let_def split: option.splits)
  have missing: "\<not> is_localhost_request req \<and> \<not> truthy (select_key req) \<longrightarrow>
         verify_api_key h b req = Inl (HTTPException 401
            ''API key required. Provide via X-API-Key header or api_key query parameter.'')"
    by (simp add: verify_api_key_def Let_def)
  have invalid: "\<not> is_localhost_request req \<and> (\<exists>k. select_key req = Some k \<and> k \<noteq> [] \<and> validate_key h b k = None) \<longrightarrow>
         verify_api_key h b req = Inl (HTTPException 401 ''Invalid API key.'')"
    by (auto simp: verify_api_key_def truthy_def Let_def)
  from is_localhost_request_iff [of req] select_key_or [of req] acc missing invalid
  show ?thesis by blast
qed

lemma external_not_localhost: "\<not> is_localhost_request (external_request hdr qry)"
  by (simp add: is_localhost_request_def external_request_def localhost_ips_def)

lemma keyed_broker_validates:
  "validate_key sample_hash keyed_broker sample_secret
     = Some \<lparr>info_key_id = ''89abcdef'', info_name = ''alice'', info_created_at = 5,
             info_requests_count = 0, info_audio_seconds = 0\<rparr>"
  by (simp add: keyed_broker_def validate_key_def get_key_id_from_full_key_def create_key_def
      generate_api_key_def last8_def KEY_PREFIX_def KEY_LENGTH_def APIKEY_PREFIX_def
      sample_token_def sample_secret_def empty_broker_def Let_def)

lemma keyed_broker_rejects: "validate_key sample_hash keyed_broker ''vvtts_bad'' = None"
  by (simp add: validate_key_def get_key_id_from_full_key_def KEY_PREFIX_def KEY_LENGTH_def Let_def)

theorem credential_gate_witness:
  "verify_api_key sample_hash keyed_broker (external_request None None)
     = Inl (HTTPException 401
          ''API key required. Provide via X-API-Key header or api_key query parameter.'')
   \<and> verify_api_key sample_hash keyed_broker (external_request (Some ''vvtts_bad'') None)
     = Inl (HTTPException 401 ''Invalid API key.'')
   \<and> (\<exists>info. verify_api_key sample_hash keyed_broker
                (external_request None (Some sample_secret)) = Inr info)"
proof -
  let ?none = "external_request None None"
  let ?bad = "external_request (Some ''vvtts_bad'') None"
  let ?good = "external_request None (Some sample_secret)"
  have s0: "select_key ?none = None"
    and s1: "select_key ?bad = Some ''vvtts_bad''"
    and s2: "select_key ?good = Some sample_secret"
    by (simp_all add: select_key_def external_request_def)
  have "\<not> is_localhost_request ?none \<and> \<not> truthy (select_key ?none)"
    by (simp add: external_not_localhost s0 truthy_def)
  with credential_gate [of ?none sample_hash keyed_broker]
  have a: "verify_api_key sample_hash keyed_broker ?none = Inl (HTTPException 401
            ''API key required. Provide via X-API-Key header or api_key query parameter.'')"
    by blast
  have "\<not> is_localhost_request ?bad
      \<and> (\<exists>k. select_key ?bad = Some k \<and> k \<noteq> [] \<and> validate_key sample_hash keyed_broker k = None)"
    by (simp add: external_not_localhost s1 keyed_broker_rejects)
  with credential_gate [of ?bad sample_hash keyed_broker]
  have b: "verify_api_key sample_hash keyed_broker ?bad = Inl (HTTPException 401 ''Invalid API key.'')"
    by blast
  have "\<exists>k. select_key ?good = Some k \<and> k \<noteq> [] \<and> validate_key sample_hash keyed_broker k \<noteq> None"
  proof -
    have "sample_secret \<noteq> []" by (simp add: sample_secret_def)
    then show ?thesis by (simp add: s2 keyed_broker_validates)
  qed
  with credential_gate [of ?good sample_hash keyed_broker]
  have c: "\<exists>info. verify_api_key sample_hash keyed_broker ?good = Inr info"
    by blast
  from a b c show ?thesis by blast
qed

text \<open>
  Claim C2 as stated fails twice. A request from outside with a bad key in the header
  and a valid key in the query parameter is rejected, although a key supplied by the query
  parameter validates: the header wins. And a forwarded request whose first element is
  \<open>127.0.0.1\<close> followed by a space, which is not in the set, is accepted without a key.
\<close>

theorem credential_gate_counterexample:
  "api_key (external_request (Some ''vvtts_bad'') (Some sample_secret))
      = Some sample_secret
   \<and> validate_key sample_hash keyed_broker sample_secret \<noteq> None
   \<and> verify_api_key sample_hash keyed_broker
        (external_request (Some ''vvtts_bad'') (Some sample_secret))
      = Inl (HTTPException 401 ''Invalid API key.'')
   \<and> takeWhile (\<lambda>c. c \<noteq> CHR '','') ''127.0.0.1 , 203.0.113.7'' \<notin> localhost_ips
   \<and> verify_api_key sample_hash keyed_broker (forwarded_request ''127.0.0.1 , 203.0.113.7'')
      = Inr None"
proof -
  have "verify_api_key sample_hash keyed_broker
        (external_request (Some ''vvtts_bad'') (Some sample_secret))
      = Inl (HTTPException 401 ''Invalid API key.'')"
    by (simp add: verify_api_key_def external_not_localhost select_key_def truthy_def
        keyed_broker_rejects Let_def)
       (simp add: external_request_def keyed_broker_rejects)
  moreover have "verify_api_key sample_hash keyed_broker (forwarded_request ''127.0.0.1 , 203.0.113.7'')
      = Inr None"
    by (simp add: verify_api_key_def is_localhost_request_def forwarded_request_def
        localhost_ips_def strip_def py_isspace_def Let_def)
  moreover have "takeWhile (\<lambda>c. c \<noteq> CHR '','') ''127.0.0.1 , 203.0.113.7'' \<notin> localhost_ips"
    by (simp add: localhost_ips_def)
  moreover have "api_key (external_request (Some ''vvtts_bad'') (Some sample_secret)) = Some sample_secret"
    by (simp add: external_request_def)
  moreover have "validate_key sample_hash keyed_broker sample_secret \<noteq> None"
    by (simp add: keyed_broker_validates)
  ultimately show ?thesis by blast
qed

section \<open>Asynchronous submission\<close>

text \<open>
  Claim C4, amended. For a validated body, the answer of \<open>POST /synthesize/async\<close>
  carries the fresh job id and the status \<open>pending\<close>; its \<open>queue_position\<close> is the
  size of the quality's queue after the enqueue, so 1 when the queue was empty before;
  \<open>estimated_wait\<close> is the position divided by the number of active workers, times
  \<open>AVG_GENERATION_TIME\<close>, and \<open>None\<close> without active workers.
\<close>

theorem async_response:
  assumes "req_quality req \<in> {''high'', ''fast''}"
  shows "ar_job_id (fst (synthesize_async b req info new_id now tmo)) = new_id
    \<and> ar_status (fst (synthesize_async b req info new_id now tmo)) = PENDING
    \<and> ar_queue_position (fst (synthesize_async b req info new_id now tmo))
         = int (length (queues b (get_queue_key (req_quality req)))) + 1
    \<and> (queues b (get_queue_key (req_quality req)) = [] \<longrightarrow>
         ar_queue_position (fst (synthesize_async b req info new_id now tmo)) = 1)
    \<and> ar_estimated_wait (fst (synthesize_async b req info new_id now tmo))
         = (if length (get_active_workers b) = 0 then None
            else Some (real_of_int (ar_queue_position (fst (synthesize_async b req info new_id now tmo)))
                         / real (length (get_active_workers b)) * AVG_GENERATION_TIME))"
proof -
  from assms have ne: "req_quality req \<noteq> []" by auto
  have w: "workers (enqueue_job b j q) = workers b" for j q
    by (simp add: enqueue_job_def lpush_def set_status_key_def Let_def)
  have sz: "get_queue_size (enqueue_job b j (req_quality req)) (Some (req_quality req))
              = int (length (queues b (get_queue_key (req_quality req)))) + 1" for j
    using ne by (simp add: get_queue_size_def enqueue_job_def lpush_def set_status_key_def Let_def)
  show ?thesis
    by (simp add: synthesize_async_def Let_def sz get_active_workers_def w)
qed

theorem async_response_witness:
  "ar_status (fst (synthesize_async one_worker_broker (sample_request ''high'') None ''j1'' 0 120)) = PENDING
   \<and> ar_queue_position (fst (synthesize_async one_worker_broker (sample_request ''high'') None ''j1'' 0 120)) = 1
   \<and> ar_estimated_wait (fst (synthesize_async one_worker_broker (sample_request ''high'') None ''j1'' 0 120)) = Some 3"
proof -
  let ?r = "fst (synthesize_async one_worker_broker (sample_request ''high'') None ''j1'' 0 120)"
  have h: "req_quality (sample_request ''high'') \<in> {''high'', ''fast''}"
    by (simp add: sample_request_def)
  note T = async_response [OF h, of one_worker_broker None "''j1''" 0 120]
  have q: "queues one_worker_broker (get_queue_key (req_quality (sample_request ''high''))) = []"
    by (simp add: one_worker_broker_def register_worker_def empty_broker_def)
  have n: "length (get_active_workers one_worker_broker) = 1"
    by (simp add: one_worker_broker_def register_worker_def empty_broker_def get_active_workers_def)
  from T have "ar_status ?r = PENDING" by blast
  moreover from T q have p: "ar_queue_position ?r = 1" by blast
  moreover from T have "ar_estimated_wait ?r
         = (if length (get_active_workers one_worker_broker) = 0 then None
            else Some (real_of_int (ar_queue_position ?r)
                         / real (length (get_active_workers one_worker_broker)) * AVG_GENERATION_TIME))"
    by blast
  then have "ar_estimated_wait ?r = Some 3"
    by (simp add: n p AVG_GENERATION_TIME_def)
  ultimately show ?thesis by blast
qed

text \<open>
  Claim C4 as stated fails: on an empty queue with one worker the reported position is
  not 0, while the job's position in the queue, counted from zero, is 0.
\<close>

theorem async_position_counterexample:
  "queues one_worker_broker (get_queue_key ''high'') = []
   \<and> ar_queue_position (fst (synthesize_async one_worker_broker (sample_request ''high'') None ''j1'' 0 120)) \<noteq> 0
   \<and> get_queue_position (snd (synthesize_async one_worker_broker (sample_request ''high'') None ''j1'' 0 120))
        ''j1'' ''high'' = 0"
  by (simp add: synthesize_async_def one_worker_broker_def register_worker_def empty_broker_def
      sample_request_def enqueue_job_def lpush_def set_status_key_def get_queue_size_def
      get_queue_position_def get_queue_key_def QUALITY_FAST_def JOBS_QUEUE_HIGH_def Let_def)

end
